theory Spec2Isabelle
  imports Main "HOL-Library.Log_Nat" "HOL-Library.Product_Lexorder"
begin

section \<open>JavaScript numbers\<close>

text \<open>
  A JavaScript Number is an IEEE-754 binary64 value.  A finite value is kept as the
  rational it denotes; the sign of zero is not tracked (\<open>-0 === 0\<close> holds in
  JavaScript, and nothing modelled here divides by a computed zero).
\<close>

datatype jsnum = NaN | PosInf | NegInf | Fin rat

text \<open>The integer nearest to \<open>a / b\<close> for \<open>0 < b\<close>, a tie going to the even one.\<close>

definition round_half_even :: "int \<Rightarrow> int \<Rightarrow> int" where
  "round_half_even a b =
     (let k = a div b; r = a mod b
      in if 2 * r < b then k else if b < 2 * r then k + 1 else if even k then k else k + 1)"

text \<open>The binary exponent of \<open>p / q\<close> for positive \<open>p\<close> and \<open>q\<close>: the \<open>e\<close> with
  \<open>2^e \<le> p / q < 2^(e + 1)\<close>.\<close>

definition binade :: "int \<Rightarrow> int \<Rightarrow> int" where
  "binade p q =
     (let d = bitlen p - bitlen q
      in if q * 2 ^ nat d \<le> p * 2 ^ nat (- d) then d else d - 1)"

text \<open>
  Rounding of an exact result to binary64, round-to-nearest, ties-to-even: 53 significant
  bits in the normal range, multiples of \<open>2^-1074\<close> below \<open>2^-1022\<close>, and an
  infinity once the rounded magnitude reaches \<open>2^1024\<close>.
\<close>

definition double_of_rat :: "rat \<Rightarrow> jsnum" where
  "double_of_rat x =
     (if x = 0 then Fin 0
      else
        let (p, q) = quotient_of \<bar>x\<bar>;
            e = max (binade p q) (- 1022);
            s = 52 - e;
            m = round_half_even (p * 2 ^ nat s) (q * 2 ^ nat (- s));
            y = (if 0 \<le> s then of_int m / 2 ^ nat s else of_int m * 2 ^ nat (- s))
        in if 1024 \<le> e \<or> (e = 1023 \<and> 9007199254740992 \<le> m)
           then (if x < 0 then NegInf else PosInf)
           else Fin (if x < 0 then - y else y))"

text \<open>The operators \<open>*\<close>, \<open>+\<close> and \<open>/\<close> on Numbers.\<close>

fun js_mul :: "jsnum \<Rightarrow> jsnum \<Rightarrow> jsnum" where
  "js_mul (Fin a) (Fin b) = double_of_rat (a * b)"
| "js_mul NaN _ = NaN"
| "js_mul _ NaN = NaN"
| "js_mul PosInf PosInf = PosInf"
| "js_mul NegInf NegInf = PosInf"
| "js_mul PosInf NegInf = NegInf"
| "js_mul NegInf PosInf = NegInf"
| "js_mul PosInf (Fin b) = (if b = 0 then NaN else if 0 < b then PosInf else NegInf)"
| "js_mul NegInf (Fin b) = (if b = 0 then NaN else if 0 < b then NegInf else PosInf)"
| "js_mul (Fin a) PosInf = (if a = 0 then NaN else if 0 < a then PosInf else NegInf)"
| "js_mul (Fin a) NegInf = (if a = 0 then NaN else if 0 < a then NegInf else PosInf)"

fun js_add :: "jsnum \<Rightarrow> jsnum \<Rightarrow> jsnum" where
  "js_add (Fin a) (Fin b) = double_of_rat (a + b)"
| "js_add NaN _ = NaN"
| "js_add _ NaN = NaN"
| "js_add PosInf NegInf = NaN"
| "js_add NegInf PosInf = NaN"
| "js_add PosInf _ = PosInf"
| "js_add NegInf _ = NegInf"
| "js_add _ PosInf = PosInf"
| "js_add _ NegInf = NegInf"

text \<open>Division; a zero divisor is read as \<open>+0\<close>.\<close>

fun js_div :: "jsnum \<Rightarrow> jsnum \<Rightarrow> jsnum" where
  "js_div (Fin a) (Fin b) =
     (if b = 0 then (if a = 0 then NaN else if 0 < a then PosInf else NegInf)
      else double_of_rat (a / b))"
| "js_div NaN _ = NaN"
| "js_div _ NaN = NaN"
| "js_div (Fin a) PosInf = Fin 0"
| "js_div (Fin a) NegInf = Fin 0"
| "js_div PosInf (Fin b) = (if b < 0 then NegInf else PosInf)"
| "js_div NegInf (Fin b) = (if b < 0 then PosInf else NegInf)"
| "js_div PosInf _ = NaN"
| "js_div NegInf _ = NaN"

text \<open>A decimal literal of the source denotes the double nearest to it.\<close>

definition lit :: "rat \<Rightarrow> jsnum" where
  "lit x = double_of_rat x"

section \<open>CostAccountant: \<open>AIService.calculateCost\<close>\<close>

text \<open>
  What a property read yields: a Number, \<open>undefined\<close>, or some other object.
  \<open>ToNumber\<close> of \<open>undefined\<close> and of a function or plain object is \<open>NaN\<close>.
\<close>

record Rates =
  input_rate :: jsnum
  output_rate :: jsnum

datatype costs_member = RatesObject Rates | BuiltinObject | Undefined

text \<open>
  \<open>costs\<close> is an object literal, so its prototype is \<open>Object.prototype\<close>: a key that is not
  an own property is looked up there.  These are the property names of
  \<open>Object.prototype\<close>; each holds a function (or, for \<open>__proto__\<close>, the prototype object
  itself), a truthy value with no \<open>input\<close> or \<open>output\<close> property.
\<close>

definition Object_prototype_keys :: "string list" where
  "Object_prototype_keys =
     [''constructor'', ''__defineGetter__'', ''__defineSetter__'', ''hasOwnProperty'',
      ''__lookupGetter__'', ''__lookupSetter__'', ''isPrototypeOf'',
      ''propertyIsEnumerable'', ''toString'', ''valueOf'', ''__proto__'',
      ''toLocaleString'']"

definition costs_text :: Rates where
  "costs_text = \<lparr> input_rate = js_div (lit (15 / 100)) (lit 1000000),
                  output_rate = js_div (lit (6 / 10)) (lit 1000000) \<rparr>"

definition costs_vision :: Rates where
  "costs_vision = \<lparr> input_rate = js_div (lit (25 / 10)) (lit 1000000),
                    output_rate = js_div (lit 10) (lit 1000000) \<rparr>"

text \<open>\<open>costs[type]\<close>\<close>

definition costs_get :: "string \<Rightarrow> costs_member" where
  "costs_get ty =
     (if ty = ''text'' then RatesObject costs_text
      else if ty = ''vision'' then RatesObject costs_vision
      else if ty \<in> set Object_prototype_keys then BuiltinObject
      else Undefined)"

text \<open>\<open>costType.input\<close> and \<open>costType.output\<close>, converted to a Number by the multiplication.\<close>

fun member_input :: "costs_member \<Rightarrow> jsnum" where
  "member_input (RatesObject r) = input_rate r"
| "member_input BuiltinObject = NaN"
| "member_input Undefined = NaN"

fun member_output :: "costs_member \<Rightarrow> jsnum" where
  "member_output (RatesObject r) = output_rate r"
| "member_output BuiltinObject = NaN"
| "member_output Undefined = NaN"

text \<open>
  \<open>calculateCost(tokens, type = 'text')\<close>; an omitted argument is \<open>None\<close> and takes the
  default.  \<open>costs[type] || costs.text\<close> falls back only when the lookup is \<open>undefined\<close>:
  every object is truthy.
\<close>

definition calculateCost :: "jsnum \<Rightarrow> string option \<Rightarrow> jsnum" where
  "calculateCost tokens type_arg =
     (let ty = (case type_arg of None \<Rightarrow> ''text'' | Some s \<Rightarrow> s);
          inputTokens = js_mul tokens (lit (7 / 10));
          outputTokens = js_mul tokens (lit (3 / 10));
          costType = (case costs_get ty of Undefined \<Rightarrow> RatesObject costs_text | m \<Rightarrow> m)
      in js_add (js_mul inputTokens (member_input costType))
                (js_mul outputTokens (member_output costType)))"

text \<open>
  The formula as the specification words it: 70 percent of the tokens at the input rate
  plus 30 percent at the output rate, in JavaScript arithmetic.
\<close>

definition estimateCost_spec :: "jsnum \<Rightarrow> jsnum \<Rightarrow> jsnum \<Rightarrow> jsnum" where
  "estimateCost_spec t inputRate outputRate =
     js_add (js_mul (js_mul (lit (7 / 10)) t) inputRate)
            (js_mul (js_mul (lit (3 / 10)) t) outputRate)"

section \<open>Plan configuration: \<open>config/stripe.js\<close>\<close>

datatype PlanType = FREE | PRO

record Features =
  conversionsPerMonth :: int
  notesLimit :: int
  aiFeatures :: bool
  exportFormats :: "string list"
  folders :: bool
  tags :: bool

record Plan =
  plan_name :: string
  price :: jsnum
  priceId :: "string option"
  features :: Features

text \<open>The process environment: \<open>process.env.STRIPE_PRO_PRICE_ID\<close>, \<open>None\<close> when unset.\<close>

record Env =
  STRIPE_PRO_PRICE_ID :: "string option"

text \<open>\<open>a || b\<close> on an optional string: the empty string and \<open>undefined\<close> are falsy.\<close>

definition truthy :: "string option \<Rightarrow> bool" where
  "truthy v = (case v of None \<Rightarrow> False | Some s \<Rightarrow> s \<noteq> [])"

definition js_or :: "string option \<Rightarrow> string option \<Rightarrow> string option" where
  "js_or a b = (if truthy a then a else b)"

fun PLANS :: "Env \<Rightarrow> PlanType \<Rightarrow> Plan" where
  "PLANS env FREE =
     \<lparr> plan_name = ''Free'', price = lit 0, priceId = None,
       features = \<lparr> conversionsPerMonth = 10, notesLimit = 20, aiFeatures = False,
                    exportFormats = [], folders = False, tags = False \<rparr> \<rparr>"
| "PLANS env PRO =
     \<lparr> plan_name = ''Pro'', price = lit (1299 / 100),
       priceId = js_or (STRIPE_PRO_PRICE_ID env) (Some ''price_pro_monthly''),
       features = \<lparr> conversionsPerMonth = - 1, notesLimit = - 1, aiFeatures = True,
                    exportFormats = [''pdf'', ''txt'', ''markdown''], folders = True,
                    tags = True \<rparr> \<rparr>"

section \<open>Dates\<close>

text \<open>
  A \<open>Date\<close> read from a clock is kept as its local calendar fields, the ones \<open>setDate\<close> and
  \<open>setHours\<close> write (\<open>month\<close> counts from 0, as \<open>getMonth\<close> does).  Instants are compared
  field by field, most significant first, which is the order of the instants themselves
  for a server whose UTC offset is fixed.
\<close>

record jsdate =
  year :: int
  month :: int
  day :: int
  hours :: int
  minutes :: int
  seconds :: int
  millis :: int

definition date_key :: "jsdate \<Rightarrow> int \<times> int \<times> int \<times> int \<times> int \<times> int \<times> int" where
  "date_key d = (year d, month d, day d, hours d, minutes d, seconds d, millis d)"

definition date_le :: "jsdate \<Rightarrow> jsdate \<Rightarrow> bool" where
  "date_le a b = (date_key a \<le> date_key b)"

definition date_less :: "jsdate \<Rightarrow> jsdate \<Rightarrow> bool" where
  "date_less a b = (date_key a < date_key b)"



text \<open>A \<open>Date\<close> built by \<open>new Date(ms)\<close> is kept as that count of milliseconds since the epoch.\<close>

type_synonym epoch_ms = int

section \<open>The persistent store\<close>

text \<open>
  Modelled from the spec: the Prisma schema is not among the sources.  The models
  \<open>Subscription\<close>, \<open>User\<close>, \<open>Note\<close>, \<open>AIUsage\<close> and \<open>PaymentHistory\<close> carry the fields of
  section 3 of the specification that the modelled code reads or writes; \<open>id\<close> is the primary
  key, \<open>stripeSubscriptionId\<close> is unique when present, \<open>userId\<close> and \<open>noteId\<close> refer to an
  existing row, and a created row gets \<open>createdAt\<close> from the store's clock, \<open>deletedAt\<close>
  null and \<open>cancelAtPeriodEnd\<close> false unless the call says otherwise.
\<close>

type_synonym ident = string

datatype SubscriptionStatus = ACTIVE | PAST_DUE | CANCELED | INCOMPLETE

datatype Role = Role_USER | Role_PRO | Role_ADMIN

record Subscription =
  sub_id :: ident
  sub_userId :: ident
  planType :: PlanType
  status :: SubscriptionStatus
  stripeCustomerId :: "string option"
  stripeSubscriptionId :: "string option"
  currentPeriodStart :: "epoch_ms option"
  currentPeriodEnd :: "epoch_ms option"
  cancelAtPeriodEnd :: bool
  sub_createdAt :: jsdate
  sub_deletedAt :: "jsdate option"

record User =
  user_id :: ident
  email :: string
  role :: Role

record Note =
  note_id :: ident
  note_userId :: ident
  note_deletedAt :: "jsdate option"

record AIUsage =
  usage_id :: ident
  usage_userId :: ident
  usage_noteId :: "ident option"
  operation :: string
  tokensUsed :: int
  cost :: jsnum
  usage_metadata :: "(string \<times> string) list"
  usage_createdAt :: jsdate

record PaymentHistory =
  payment_id :: ident
  payment_userId :: ident
  stripePaymentId :: "string option"
  amount :: jsnum
  currency :: string
  payment_planType :: PlanType
  pay_status :: string
  payment_createdAt :: jsdate

record Store =
  subscriptions :: "Subscription list"
  users :: "User list"
  note_table :: "Note list"
  aiUsage :: "AIUsage list"
  paymentHistory :: "PaymentHistory list"

text \<open>What the runtime supplies to a call that writes: the JavaScript clock (\<open>new Date()\<close>),
  the store's clock and the identifier the store gives the next created row.\<close>

record Runtime =
  js_now :: jsdate
  db_now :: jsdate
  db_newId :: ident

datatype error =
  RecordNotFound | UniqueConstraint | ForeignKeyConstraint | StorageFailure | ProviderError |
  TypeError

text \<open>How an \<open>async\<close> function with no return value ends.\<close>

datatype completion = Returned | Threw error

section \<open>EntitlementResolver: \<open>UsageService.getUserPlan\<close>\<close>

text \<open>\<open>orderBy: { createdAt: 'desc' }\<close> followed by taking the first row: a row whose
  \<open>createdAt\<close> no other row exceeds, the earliest stored one among equals.\<close>

fun newest :: "Subscription list \<Rightarrow> Subscription option" where
  "newest [] = None"
| "newest (r # rs) =
     (case newest rs of
        None \<Rightarrow> Some r
      | Some r' \<Rightarrow> if date_less (sub_createdAt r) (sub_createdAt r') then Some r' else Some r)"

text \<open>\<open>prisma.subscription.findFirst({ where: { userId, deletedAt: null },
  orderBy: { createdAt: 'desc' } })\<close>\<close>

definition active_rows :: "Store \<Rightarrow> ident \<Rightarrow> Subscription list" where
  "active_rows db userId =
     filter (\<lambda>r. sub_userId r = userId \<and> sub_deletedAt r = None) (subscriptions db)"

definition subscription_findFirst_newest :: "Store \<Rightarrow> ident \<Rightarrow> Subscription option" where
  "subscription_findFirst_newest db userId = newest (active_rows db userId)"

record UserPlan =
  up_planType :: PlanType
  up_subscription :: "Subscription option"
  plan :: Plan

text \<open>A service function takes the store and returns its result with the store as the call
  leaves it.\<close>

definition getUserPlan :: "Env \<Rightarrow> Store \<Rightarrow> ident \<Rightarrow> UserPlan \<times> Store" where
  "getUserPlan env db userId =
     (let subscription = subscription_findFirst_newest db userId;
          pt = (case subscription of None \<Rightarrow> FREE | Some r \<Rightarrow> planType r)
      in (\<lparr> up_planType = pt, up_subscription = subscription, plan = PLANS env pt \<rparr>, db))"

text \<open>The rows the specification calls non-tombstoned rows of a user, and the most
  recently created among them.\<close>

definition live_row :: "Store \<Rightarrow> ident \<Rightarrow> Subscription \<Rightarrow> bool" where
  "live_row db userId r =
     (r \<in> set (subscriptions db) \<and> sub_userId r = userId \<and> sub_deletedAt r = None)"

definition most_recent_live_row :: "Store \<Rightarrow> ident \<Rightarrow> Subscription \<Rightarrow> bool" where
  "most_recent_live_row db userId r =
     (live_row db userId r \<and>
      list_all (\<lambda>r'. \<not> live_row db userId r' \<or> date_le (sub_createdAt r') (sub_createdAt r))
               (subscriptions db))"

section \<open>UsageMeter\<close>

text \<open>The object a quota check returns; a property the object does not have is \<open>None\<close>.\<close>

record Quota =
  allowed :: bool
  used :: "int option"
  limit :: "int option"

text \<open>\<open>prisma.note.count({ where: { userId, deletedAt: null } })\<close>\<close>

definition note_count :: "Store \<Rightarrow> ident \<Rightarrow> int" where
  "note_count db userId =
     int (length (filter (\<lambda>n. note_userId n = userId \<and> note_deletedAt n = None) (note_table db)))"

text \<open>\<open>UsageService.canCreateNote\<close>\<close>

definition canCreateNote :: "Env \<Rightarrow> Store \<Rightarrow> ident \<Rightarrow> Quota \<times> Store" where
  "canCreateNote env db userId =
     (let (up, db1) = getUserPlan env db userId
      in if notesLimit (features (plan up)) = - 1
         then (\<lparr> allowed = True, used = None, limit = None \<rparr>, db1)
         else
           let noteCount = note_count db1 userId
           in (\<lparr> allowed = noteCount < notesLimit (features (plan up)),
                 used = Some noteCount,
                 limit = Some (notesLimit (features (plan up))) \<rparr>, db1))"








text \<open>
  \<open>prisma.aIUsage.create\<close>.  \<open>fault\<close> is what the storage layer does to this call: \<open>None\<close> when
  it is reachable.  The row must refer to an existing user and, when a note is given, to an
  existing note.
\<close>

record UsageData =
  data_userId :: ident
  data_noteId :: "ident option"
  data_operation :: string
  data_tokensUsed :: int
  data_cost :: jsnum
  data_metadata :: "(string \<times> string) list"

definition aIUsage_create :: "error option \<Rightarrow> Runtime \<Rightarrow> Store \<Rightarrow> UsageData \<Rightarrow> error + Store" where
  "aIUsage_create fault rt db d =
     (case fault of
        Some e \<Rightarrow> Inl e
      | None \<Rightarrow>
          if data_userId d \<notin> user_id ` set (users db) then Inl ForeignKeyConstraint
          else if (case data_noteId d of None \<Rightarrow> False
                   | Some n \<Rightarrow> n \<notin> note_id ` set (note_table db)) then Inl ForeignKeyConstraint
          else if db_newId rt \<in> usage_id ` set (aiUsage db) then Inl UniqueConstraint
          else Inr (db\<lparr> aiUsage := aiUsage db @
                 [\<lparr> usage_id = db_newId rt, usage_userId = data_userId d,
                    usage_noteId = data_noteId d, operation = data_operation d,
                    tokensUsed = data_tokensUsed d, cost = data_cost d,
                    usage_metadata = data_metadata d, usage_createdAt = db_now rt \<rparr>] \<rparr>))"

text \<open>\<open>AIService.trackUsage\<close>: the \<open>catch\<close> logs and does not rethrow.  The result is how
  the call ends, the store after it and the lines it wrote with \<open>console.error\<close>.\<close>

definition trackUsage ::
  "error option \<Rightarrow> Runtime \<Rightarrow> Store \<Rightarrow> ident \<Rightarrow> string \<Rightarrow> int \<Rightarrow> jsnum \<Rightarrow> ident option \<Rightarrow>
   (string \<times> string) list option \<Rightarrow> completion \<times> Store \<times> (string \<times> error) list" where
  "trackUsage fault rt db userId op tokens c noteId_arg metadata_arg =
     (let noteId = noteId_arg;
          metadata = (case metadata_arg of None \<Rightarrow> [] | Some m \<Rightarrow> m)
      in case aIUsage_create fault rt db
                \<lparr> data_userId = userId, data_noteId = noteId, data_operation = op,
                  data_tokensUsed = tokens, data_cost = c, data_metadata = metadata \<rparr> of
           Inr db' \<Rightarrow> (Returned, db', [])
         | Inl e \<Rightarrow> (Returned, db, [(''Failed to track AI usage:'', e)]))"

section \<open>The payment provider\<close>

text \<open>
  Objects of the provider's API, with the fields the handlers read.  \<open>metadata\<close> is the
  provider's string-to-string bag, absent on some objects.
\<close>

record StripeSubscription =
  ss_id :: string
  ss_status :: string
  current_period_start :: int
  current_period_end :: int
  cancel_at_period_end :: bool

record CheckoutSession =
  cs_id :: string
  cs_metadata :: "(string \<times> string) list option"
  customer_email :: "string option"
  customer :: "string option"
  cs_subscription :: "string option"
  payment_status :: string

record StripeCustomer =
  customer_id :: string
  cust_email :: string
  cust_metadata :: "(string \<times> string) list"

record Provider =
  provider_subscriptions :: "StripeSubscription list"
  provider_customers :: "StripeCustomer list"
  provider_sessions :: "CheckoutSession list"

text \<open>\<open>session.metadata?.key\<close>\<close>

definition metadata_get :: "CheckoutSession \<Rightarrow> string \<Rightarrow> string option" where
  "metadata_get session k = (case cs_metadata session of None \<Rightarrow> None | Some m \<Rightarrow> map_of m k)"

text \<open>\<open>stripe.subscriptions.retrieve(id)\<close> rejects when there is no such subscription.\<close>

definition subscriptions_retrieve :: "Provider \<Rightarrow> string option \<Rightarrow> error + StripeSubscription" where
  "subscriptions_retrieve stripe sid =
     (case sid of
        None \<Rightarrow> Inl ProviderError
      | Some i \<Rightarrow>
          (case find (\<lambda>s. ss_id s = i) (provider_subscriptions stripe) of
             None \<Rightarrow> Inl ProviderError
           | Some s \<Rightarrow> Inr s))"

section \<open>Store operations of the billing controller\<close>



text \<open>\<open>prisma.subscription.updateMany({ where: { userId }, data: { deletedAt } })\<close>\<close>

definition subscription_updateMany_deletedAt :: "Store \<Rightarrow> ident \<Rightarrow> jsdate \<Rightarrow> Store" where
  "subscription_updateMany_deletedAt db userId d =
     db\<lparr> subscriptions :=
          map (\<lambda>r. if sub_userId r = userId then r\<lparr> sub_deletedAt := Some d \<rparr> else r)
              (subscriptions db) \<rparr>"

text \<open>\<open>prisma.subscription.create({ data })\<close>\<close>

record SubscriptionData =
  new_userId :: ident
  new_stripeCustomerId :: "string option"
  new_stripeSubscriptionId :: "string option"
  new_planType :: PlanType
  new_status :: SubscriptionStatus
  new_currentPeriodStart :: "epoch_ms option"
  new_currentPeriodEnd :: "epoch_ms option"

definition subscription_create :: "Runtime \<Rightarrow> Store \<Rightarrow> SubscriptionData \<Rightarrow> error + Store" where
  "subscription_create rt db d =
     (if new_userId d \<notin> user_id ` set (users db) then Inl ForeignKeyConstraint
      else if db_newId rt \<in> sub_id ` set (subscriptions db) then Inl UniqueConstraint
      else if (case new_stripeSubscriptionId d of None \<Rightarrow> False
               | Some sid \<Rightarrow> Some sid \<in> stripeSubscriptionId ` set (subscriptions db))
           then Inl UniqueConstraint
      else Inr (db\<lparr> subscriptions := subscriptions db @
             [\<lparr> sub_id = db_newId rt, sub_userId = new_userId d,
                planType = new_planType d, status = new_status d,
                stripeCustomerId = new_stripeCustomerId d,
                stripeSubscriptionId = new_stripeSubscriptionId d,
                currentPeriodStart = new_currentPeriodStart d,
                currentPeriodEnd = new_currentPeriodEnd d,
                cancelAtPeriodEnd = False,
                sub_createdAt = db_now rt, sub_deletedAt = None \<rparr>] \<rparr>))"

text \<open>\<open>prisma.user.update({ where: { id }, data: { role } })\<close>\<close>

definition user_update_role :: "Store \<Rightarrow> ident \<Rightarrow> Role \<Rightarrow> error + Store" where
  "user_update_role db i r =
     (if i \<in> user_id ` set (users db)
      then Inr (db\<lparr> users := map (\<lambda>u. if user_id u = i then u\<lparr> role := r \<rparr> else u) (users db) \<rparr>)
      else Inl RecordNotFound)"

section \<open>SubscriptionStateMachine: the webhook handlers\<close>

text \<open>\<open>BillingController.handleCheckoutCompleted\<close>\<close>

definition handleCheckoutCompleted ::
  "Provider \<Rightarrow> Runtime \<Rightarrow> Store \<Rightarrow> CheckoutSession \<Rightarrow> completion \<times> Store" where
  "handleCheckoutCompleted stripe rt db session =
     (let userId = metadata_get session ''userId'';
          email = js_or (metadata_get session ''email'') (customer_email session)
      in if \<not> truthy userId \<and> \<not> truthy email then (Returned, db)
         else
           case subscriptions_retrieve stripe (cs_subscription session) of
             Inl e \<Rightarrow> (Threw e, db)
           | Inr subscription \<Rightarrow>
               if userId = Some ''pending'' \<or> \<not> truthy userId then (Returned, db)
               else
                 case userId of
                   None \<Rightarrow> (Returned, db)
                 | Some uid \<Rightarrow>
                     let db1 = subscription_updateMany_deletedAt db uid (js_now rt)
                     in case subscription_create rt db1
                               \<lparr> new_userId = uid,
                                 new_stripeCustomerId = customer session,
                                 new_stripeSubscriptionId = Some (ss_id subscription),
                                 new_planType = PRO,
                                 new_status =
                                   (if ss_status subscription = ''active'' then ACTIVE
                                    else INCOMPLETE),
                                 new_currentPeriodStart =
                                   Some (current_period_start subscription * 1000),
                                 new_currentPeriodEnd =
                                   Some (current_period_end subscription * 1000) \<rparr> of
                          Inl e \<Rightarrow> (Threw e, db1)
                        | Inr db2 \<Rightarrow>
                            (case user_update_role db2 uid Role_PRO of
                               Inl e \<Rightarrow> (Threw e, db2)
                             | Inr db3 \<Rightarrow> (Returned, db3)))"




section \<open>CheckoutOrchestrator: \<open>BillingController.createGuestCheckoutSession\<close>\<close>

text \<open>
  The request body, the response, and what the provider does with the calls of one request:
  whether it rejects them, and the identifiers and URL it assigns.  A session the provider
  has just created is unpaid and has no subscription yet.  The redirect URLs and line items
  of the session request are not kept: nothing modelled here reads them.
\<close>

record GuestCheckoutBody =
  body_planType :: "string option"
  body_billingCycle :: "string option"
  body_email :: "string option"

datatype response =
    Status_error nat string
  | Session_created string string
  | Next error

record ProviderCall =
  customers_fault :: "error option"
  new_customer_id :: string
  sessions_fault :: "error option"
  new_session_id :: string
  new_session_url :: string

text \<open>\<open>PLANS[key]\<close> for a key given as a string.\<close>

definition PLANS_by_name :: "Env \<Rightarrow> string \<Rightarrow> Plan option" where
  "PLANS_by_name env k =
     (if k = ''FREE'' then Some (PLANS env FREE)
      else if k = ''PRO'' then Some (PLANS env PRO)
      else None)"

text \<open>\<open>prisma.user.findUnique({ where: { email } })\<close> and
  \<open>prisma.subscription.findFirst({ where: { userId, deletedAt: null } })\<close>, which has no
  ordering: the first matching row as stored.\<close>

definition user_findUnique_email :: "Store \<Rightarrow> string \<Rightarrow> User option" where
  "user_findUnique_email db e = find (\<lambda>u. email u = e) (users db)"

definition subscription_findFirst :: "Store \<Rightarrow> ident \<Rightarrow> Subscription option" where
  "subscription_findFirst db userId =
     find (\<lambda>r. sub_userId r = userId \<and> sub_deletedAt r = None) (subscriptions db)"

text \<open>\<open>stripe.customers.create\<close> and \<open>stripe.checkout.sessions.create\<close>\<close>

definition customers_create ::
  "ProviderCall \<Rightarrow> Provider \<Rightarrow> string \<Rightarrow> (string \<times> string) list \<Rightarrow> error + StripeCustomer \<times> Provider" where
  "customers_create pc stripe e md =
     (case customers_fault pc of
        Some err \<Rightarrow> Inl err
      | None \<Rightarrow>
          let c = \<lparr> customer_id = new_customer_id pc, cust_email = e, cust_metadata = md \<rparr>
          in Inr (c, stripe\<lparr> provider_customers := provider_customers stripe @ [c] \<rparr>))"

definition sessions_create ::
  "ProviderCall \<Rightarrow> Provider \<Rightarrow> string option \<Rightarrow> string option \<Rightarrow> (string \<times> string) list \<Rightarrow>
   error + CheckoutSession \<times> Provider" where
  "sessions_create pc stripe cust cust_email_arg md =
     (case sessions_fault pc of
        Some err \<Rightarrow> Inl err
      | None \<Rightarrow>
          let s = \<lparr> cs_id = new_session_id pc, cs_metadata = Some md,
                    customer_email = cust_email_arg, customer = cust,
                    cs_subscription = None, payment_status = ''unpaid'' \<rparr>
          in Inr (s, stripe\<lparr> provider_sessions := provider_sessions stripe @ [s] \<rparr>))"

text \<open>The steps of \<open>createGuestCheckoutSession\<close> after its validations: the customer id of
  an existing user's subscription row, else a new provider customer, and then the session.\<close>

definition existing_customerId :: "Store \<Rightarrow> User option \<Rightarrow> string option" where
  "existing_customerId db existingUser =
     (case existingUser of
        None \<Rightarrow> None
      | Some u \<Rightarrow>
          (case subscription_findFirst db (user_id u) of
             None \<Rightarrow> None
           | Some r \<Rightarrow> stripeCustomerId r))"

definition or_pending :: "string option \<Rightarrow> string" where
  "or_pending userId = (case js_or userId (Some ''pending'') of None \<Rightarrow> ''pending'' | Some s \<Rightarrow> s)"

definition get_or_create_customer ::
  "ProviderCall \<Rightarrow> Provider \<Rightarrow> string option \<Rightarrow> string \<Rightarrow> (string \<times> string) list \<Rightarrow>
   error + string option \<times> Provider" where
  "get_or_create_customer pc stripe customerId e md =
     (if truthy customerId then Inr (customerId, stripe)
      else case customers_create pc stripe e md of
             Inl err \<Rightarrow> Inl err
           | Inr (c, stripe1) \<Rightarrow> Inr (Some (customer_id c), stripe1))"

definition issue_guest_session ::
  "ProviderCall \<Rightarrow> Provider \<Rightarrow> Store \<Rightarrow> string \<Rightarrow> string \<Rightarrow> string \<Rightarrow> string \<Rightarrow>
   response \<times> Provider option \<times> Store" where
  "issue_guest_session pc stripe db e planType_in backendPlanType billingCycle =
     (let existingUser = user_findUnique_email db e;
          userId = map_option user_id existingUser;
          customerId0 = existing_customerId db existingUser
      in case get_or_create_customer pc stripe customerId0 e
                [(''userId'', or_pending userId),
                 (''planType'', backendPlanType),
                 (''originalPlanType'', planType_in),
                 (''billingCycle'', billingCycle)] of
           Inl err \<Rightarrow> (Next err, Some stripe, db)
         | Inr (customerId, stripe1) \<Rightarrow>
             (case sessions_create pc stripe1 customerId
                     (case existingUser of None \<Rightarrow> Some e | Some u \<Rightarrow> None)
                     [(''userId'', or_pending userId),
                      (''email'', e),
                      (''planType'', backendPlanType),
                      (''originalPlanType'', planType_in),
                      (''billingCycle'', billingCycle)] of
                Inl err \<Rightarrow> (Next err, Some stripe1, db)
              | Inr (session, stripe2) \<Rightarrow>
                  (Session_created (cs_id session) (new_session_url pc), Some stripe2, db)))"

definition createGuestCheckoutSession ::
  "Env \<Rightarrow> ProviderCall \<Rightarrow> Provider option \<Rightarrow> Store \<Rightarrow> GuestCheckoutBody \<Rightarrow>
   response \<times> Provider option \<times> Store" where
  "createGuestCheckoutSession env pc stripe_opt db body =
     (case stripe_opt of
        None \<Rightarrow> (Status_error 503 ''Stripe is not configured. Please set STRIPE_SECRET_KEY in environment variables.'', stripe_opt, db)
      | Some stripe \<Rightarrow>
          (let planType_in = (case body_planType body of None \<Rightarrow> ''PRO'' | Some s \<Rightarrow> s);
               billingCycle = (case body_billingCycle body of None \<Rightarrow> ''monthly'' | Some s \<Rightarrow> s);
               e = (case body_email body of None \<Rightarrow> [] | Some s \<Rightarrow> s)
           in if \<not> truthy (body_email body)
              then (Status_error 400 ''Email is required'', stripe_opt, db)
              else if planType_in \<notin> set [''BASIC'', ''PRO'', ''PREMIUM'']
              then (Status_error 400 ''Invalid plan type'', stripe_opt, db)
              else
                (let backendPlanType =
                       (if planType_in = ''BASIC'' \<or> planType_in = ''PREMIUM'' then ''PRO''
                        else planType_in)
                 in case PLANS_by_name env backendPlanType of
                      None \<Rightarrow> (Next TypeError, stripe_opt, db)
                    | Some pl \<Rightarrow>
                        if \<not> truthy (priceId pl)
                        then (Status_error 500 ''Plan price ID not configured. Please set STRIPE_PRO_PRICE_ID in environment variables.'', stripe_opt, db)
                        else issue_guest_session pc stripe db e planType_in backendPlanType
                               billingCycle)))"




section \<open>Concrete stores and inputs used to instantiate the theorems\<close>

definition env0 :: Env where
  "env0 = \<lparr> STRIPE_PRO_PRICE_ID = None \<rparr>"

definition date0 :: jsdate where
  "date0 = \<lparr> year = 2024, month = 4, day = 17, hours = 9, minutes = 30, seconds = 0, millis = 0 \<rparr>"

definition date1 :: jsdate where
  "date1 = \<lparr> year = 2024, month = 5, day = 2, hours = 8, minutes = 0, seconds = 0, millis = 0 \<rparr>"

definition date2 :: jsdate where
  "date2 = \<lparr> year = 2024, month = 5, day = 20, hours = 12, minutes = 0, seconds = 0, millis = 0 \<rparr>"

definition free_row :: Subscription where
  "free_row =
     \<lparr> sub_id = ''s1'', sub_userId = ''u1'', planType = FREE, status = ACTIVE,
       stripeCustomerId = Some ''cus_1'', stripeSubscriptionId = None,
       currentPeriodStart = None, currentPeriodEnd = None, cancelAtPeriodEnd = False,
       sub_createdAt = date0, sub_deletedAt = None \<rparr>"

definition pro_row :: Subscription where
  "pro_row =
     \<lparr> sub_id = ''s2'', sub_userId = ''u1'', planType = PRO, status = ACTIVE,
       stripeCustomerId = Some ''cus_1'', stripeSubscriptionId = Some ''sub_1'',
       currentPeriodStart = Some 1714550400000, currentPeriodEnd = Some 1717228800000,
       cancelAtPeriodEnd = False, sub_createdAt = date1, sub_deletedAt = None \<rparr>"

definition user1 :: User where
  "user1 = \<lparr> user_id = ''u1'', email = ''a@b.com'', role = Role_PRO \<rparr>"

definition user2 :: User where
  "user2 = \<lparr> user_id = ''u2'', email = ''c@d.com'', role = Role_USER \<rparr>"

definition note1 :: Note where
  "note1 = \<lparr> note_id = ''n1'', note_userId = ''u1'', note_deletedAt = None \<rparr>"

text \<open>A store where user \<open>u1\<close> first had a free row, now tombstoned, and then a paid one,
  and user \<open>u2\<close> has no subscription row.\<close>

definition db_pro :: Store where
  "db_pro =
     \<lparr> subscriptions = [free_row\<lparr> sub_deletedAt := Some date1 \<rparr>, pro_row],
       users = [user1, user2], note_table = [note1], aiUsage = [], paymentHistory = [] \<rparr>"

definition ocr_usage :: "ident \<Rightarrow> jsdate \<Rightarrow> AIUsage" where
  "ocr_usage i d =
     \<lparr> usage_id = i, usage_userId = ''u2'', usage_noteId = None, operation = ''ocr'',
       tokensUsed = 1000, cost = Fin 0, usage_metadata = [], usage_createdAt = d \<rparr>"

text \<open>Nine conversions of user \<open>u2\<close> in June 2024 and one in May, and the same store with
  a tenth June conversion.\<close>

definition db_nine :: Store where
  "db_nine =
     \<lparr> subscriptions = [], users = [user2], note_table = [],
       aiUsage = ocr_usage ''m'' date0 #
                 map (\<lambda>i. ocr_usage i date1)
                     [''a'', ''b'', ''c'', ''d'', ''e'', ''f'', ''g'', ''h'', ''i''],
       paymentHistory = [] \<rparr>"


definition rt0 :: Runtime where
  "rt0 = \<lparr> js_now = date2, db_now = date2, db_newId = ''new1'' \<rparr>"

definition stripe0 :: Provider where
  "stripe0 =
     \<lparr> provider_subscriptions =
         [\<lparr> ss_id = ''sub_1'', ss_status = ''active'', current_period_start = 1714550400,
            current_period_end = 1717228800, cancel_at_period_end = False \<rparr>,
          \<lparr> ss_id = ''sub_2'', ss_status = ''incomplete'', current_period_start = 1718841600,
            current_period_end = 1721433600, cancel_at_period_end = False \<rparr>],
       provider_customers = [], provider_sessions = [] \<rparr>"




text \<open>A store where user \<open>u2\<close> has one free subscription row, a completed checkout session
  of that user whose payment status is \<open>unpaid\<close>, and a completed guest session.\<close>

definition free_row2 :: Subscription where
  "free_row2 =
     \<lparr> sub_id = ''s3'', sub_userId = ''u2'', planType = FREE, status = ACTIVE,
       stripeCustomerId = Some ''cus_2'', stripeSubscriptionId = None,
       currentPeriodStart = None, currentPeriodEnd = None, cancelAtPeriodEnd = False,
       sub_createdAt = date0, sub_deletedAt = None \<rparr>"

definition db_free2 :: Store where
  "db_free2 =
     \<lparr> subscriptions = [free_row2], users = [user2], note_table = [], aiUsage = [],
       paymentHistory = [] \<rparr>"

definition unpaid_session :: CheckoutSession where
  "unpaid_session =
     \<lparr> cs_id = ''cs_1'',
       cs_metadata = Some [(''userId'', ''u2''), (''planType'', ''PRO''),
                           (''originalPlanType'', ''PRO''), (''billingCycle'', ''monthly'')],
       customer_email = None, customer = Some ''cus_2'', cs_subscription = Some ''sub_2'',
       payment_status = ''unpaid'' \<rparr>"

definition guest_session :: CheckoutSession where
  "guest_session =
     \<lparr> cs_id = ''cs_2'',
       cs_metadata = Some [(''userId'', ''pending''), (''email'', ''new@b.com''),
                           (''planType'', ''PRO''), (''originalPlanType'', ''PREMIUM''),
                           (''billingCycle'', ''monthly'')],
       customer_email = Some ''new@b.com'', customer = Some ''cus_3'',
       cs_subscription = Some ''sub_2'', payment_status = ''paid'' \<rparr>"

definition empty_store :: Store where
  "empty_store =
     \<lparr> subscriptions = [], users = [], note_table = [], aiUsage = [], paymentHistory = [] \<rparr>"


definition pc0 :: ProviderCall where
  "pc0 =
     \<lparr> customers_fault = None, new_customer_id = ''cus_3'', sessions_fault = None,
       new_session_id = ''cs_2'', new_session_url = ''https://checkout.example/cs_2'' \<rparr>"

definition guest_body :: GuestCheckoutBody where
  "guest_body =
     \<lparr> body_planType = Some ''PREMIUM'', body_billingCycle = None,
       body_email = Some ''new@b.com'' \<rparr>"

text \<open>The provider's state once the guest checkout \<open>guest_body\<close> has been issued.\<close>

definition stripe_after_guest :: Provider where
  "stripe_after_guest =
     stripe0\<lparr>
       provider_customers :=
         [\<lparr> customer_id = ''cus_3'', cust_email = ''new@b.com'',
            cust_metadata = [(''userId'', ''pending''), (''planType'', ''PRO''),
                             (''originalPlanType'', ''PREMIUM''),
                             (''billingCycle'', ''monthly'')] \<rparr>],
       provider_sessions :=
         [\<lparr> cs_id = ''cs_2'',
            cs_metadata = Some [(''userId'', ''pending''), (''email'', ''new@b.com''),
                                (''planType'', ''PRO''), (''originalPlanType'', ''PREMIUM''),
                                (''billingCycle'', ''monthly'')],
            customer_email = Some ''new@b.com'', customer = Some ''cus_3'',
            cs_subscription = None, payment_status = ''unpaid'' \<rparr>] \<rparr>"

section \<open>Properties of the cost formula\<close>

lemma js_mul_commute: "js_mul a b = js_mul b a"
  by (cases a; cases b) (simp_all add: mult.commute)

lemma calculateCost_text:
  "calculateCost t (Some ''text'') =
     estimateCost_spec t (js_div (lit (15 / 100)) (lit 1000000))
                         (js_div (lit (6 / 10)) (lit 1000000))"
  by (simp add: calculateCost_def estimateCost_spec_def costs_get_def costs_text_def
      js_mul_commute [of t])

lemma calculateCost_vision:
  "calculateCost t (Some ''vision'') =
     estimateCost_spec t (js_div (lit (25 / 10)) (lit 1000000))
                         (js_div (lit 10) (lit 1000000))"
  by (simp add: calculateCost_def estimateCost_spec_def costs_get_def costs_vision_def
      js_mul_commute [of t])

lemma calculateCost_1000_text:
  "calculateCost (lit 1000) (Some ''text'') = Fin (2628661030503611 / 9223372036854775808)"
  by code_simp

lemma expression_1000_text:
  "js_add (js_div (js_mul (lit 700) (lit (15 / 100))) (lit 1000000))
          (js_div (js_mul (lit 300) (lit (6 / 10))) (lit 1000000))
   = Fin (2628661030503611 / 9223372036854775808)"
  by code_simp

lemma nearest_to_285_millionths:
  "lit (285 / 1000000) = Fin (2628661030503611 / 9223372036854775808)"
  by code_simp

text \<open>
  C4.  For every token count \<open>t\<close>, \<open>calculateCost\<close> is \<open>0.7 * t * inputRate + 0.3 * t *
  outputRate\<close> in JavaScript arithmetic, with the rates \<open>0.15 / 1000000\<close> and
  \<open>0.6 / 1000000\<close> for the class \<open>text\<close> and \<open>2.5 / 1000000\<close> and \<open>10 / 1000000\<close> for
  \<open>vision\<close>: the class changes the rates and nothing else.  In particular
  \<open>calculateCost(1000, 'text')\<close> is the value of the expression
  \<open>700 * 0.15 / 1e6 + 300 * 0.6 / 1e6\<close>, which is the double nearest to \<open>0.000285\<close>.
\<close>

theorem calculateCost_is_70_30_split:
  "calculateCost t (Some ''text'') =
     estimateCost_spec t (js_div (lit (15 / 100)) (lit 1000000))
                         (js_div (lit (6 / 10)) (lit 1000000))
   \<and> calculateCost t (Some ''vision'') =
     estimateCost_spec t (js_div (lit (25 / 10)) (lit 1000000))
                         (js_div (lit 10) (lit 1000000))
   \<and> calculateCost (lit 1000) (Some ''text'') =
     js_add (js_div (js_mul (lit 700) (lit (15 / 100))) (lit 1000000))
            (js_div (js_mul (lit 300) (lit (6 / 10))) (lit 1000000))
   \<and> calculateCost (lit 1000) (Some ''text'') = lit (285 / 1000000)"
  using calculateCost_text calculateCost_vision calculateCost_1000_text expression_1000_text
    nearest_to_285_millionths
  by simp

lemma estimateCost_spec_1000_vision:
  "estimateCost_spec (Fin 1000) (js_div (lit (25 / 10)) (lit 1000000))
                                (js_div (lit 10) (lit 1000000))
   = Fin (5476377146882523 / 1152921504606846976)"
  by code_simp

theorem calculateCost_is_70_30_split_witness:
  "calculateCost (Fin 1000) (Some ''vision'') = Fin (5476377146882523 / 1152921504606846976)"
  using calculateCost_is_70_30_split [of "Fin 1000"] estimateCost_spec_1000_vision
  by simp

section \<open>Unknown operation classes\<close>

lemma js_mul_NaN_right: "js_mul x NaN = NaN"
  by (cases x) simp_all

lemma calculateCost_builtin_key:
  "ty \<in> set Object_prototype_keys \<Longrightarrow> calculateCost t (Some ty) = NaN"
  by (auto simp add: calculateCost_def costs_get_def Object_prototype_keys_def js_mul_NaN_right)

lemma calculateCost_unknown_key:
  "ty \<noteq> ''vision'' \<Longrightarrow> ty \<notin> set Object_prototype_keys \<Longrightarrow>
   calculateCost t (Some ty) = calculateCost t (Some ''text'')"
  by (simp add: calculateCost_def costs_get_def)

lemma calculateCost_default: "calculateCost t None = calculateCost t (Some ''text'')"
  by (simp add: calculateCost_def)

text \<open>
  C10.  Every class string other than \<open>text\<close> and \<open>vision\<close> is meant to give the cost of
  \<open>text\<close>; the code does not do so at the class \<open>constructor\<close>.  There
  \<open>costs['constructor']\<close> is the inherited \<open>Object\<close> function, which is truthy, so the
  fallback is not taken, its \<open>input\<close> and \<open>output\<close> are \<open>undefined\<close>, and the result is
  \<open>NaN\<close>, not the cost of \<open>text\<close>.  The same happens at every property name of
  \<open>Object.prototype\<close> (\<open>calculateCost_builtin_key\<close>); at every other unknown class the
  fallback works (\<open>calculateCost_unknown_key\<close>).
\<close>

theorem calculateCost_constructor_is_NaN:
  "calculateCost (Fin 1000) (Some ''constructor'') = NaN
   \<and> calculateCost (Fin 1000) (Some ''text'') = Fin (2628661030503611 / 9223372036854775808)"
  by code_simp

section \<open>Plan resolution\<close>

lemma date_less_le: "date_less a b \<longleftrightarrow> \<not> date_le b a"
  by (simp add: date_less_def date_le_def not_le)

lemma date_le_refl: "date_le a a"
  by (simp add: date_le_def)

lemma date_le_trans: "date_le a b \<Longrightarrow> date_le b c \<Longrightarrow> date_le a c"
  unfolding date_le_def by (rule order_trans)

lemma date_le_total: "date_le a b \<or> date_le b a"
  unfolding date_le_def by (rule linear)

lemma newest_None: "newest rs = None \<longleftrightarrow> rs = []"
  by (induction rs) (auto split: option.splits)

lemma newest_Some:
  "newest rs = Some r \<Longrightarrow>
   r \<in> set rs \<and> (\<forall>r' \<in> set rs. date_le (sub_createdAt r') (sub_createdAt r))"
proof (induction rs arbitrary: r)
  case Nil
  then show ?case by simp
next
  case (Cons x xs)
  show ?case
  proof (cases "newest xs")
    case None
    then have "xs = []" by (simp add: newest_None)
    with Cons.prems show ?thesis by (simp add: date_le_refl)
  next
    case (Some b)
    note IH = Cons.IH [OF Some]
    show ?thesis
    proof (cases "date_less (sub_createdAt x) (sub_createdAt b)")
      case True
      with Some Cons.prems have "r = b" by simp
      moreover from True have "date_le (sub_createdAt x) (sub_createdAt b)"
        using date_le_total date_less_le by blast
      ultimately show ?thesis using IH by simp
    next
      case False
      with Some Cons.prems have "r = x" by simp
      moreover from False have "date_le (sub_createdAt b) (sub_createdAt x)"
        by (simp add: date_less_le)
      ultimately show ?thesis using IH by (auto intro: date_le_trans date_le_refl)
    qed
  qed
qed

lemma getUserPlan_store: "snd (getUserPlan env db userId) = db"
  by (simp add: getUserPlan_def Let_def)

lemma active_rows_set: "r \<in> set (active_rows db userId) \<longleftrightarrow> live_row db userId r"
  by (auto simp add: active_rows_def live_row_def)

lemma newest_active_most_recent:
  assumes "newest (active_rows db userId) = Some r"
  shows "most_recent_live_row db userId r"
proof -
  from newest_Some [OF assms] have "live_row db userId r"
    and "\<forall>r' \<in> set (active_rows db userId). date_le (sub_createdAt r') (sub_createdAt r)"
    by (simp_all add: active_rows_set)
  then show ?thesis
    by (auto simp add: most_recent_live_row_def list_all_iff active_rows_set live_row_def)
qed

text \<open>
  C1.  For a user with no non-tombstoned subscription row, \<open>getUserPlan\<close> returns the plan
  type \<open>FREE\<close>, no subscription and exactly the feature set of the free tier.  For a user
  who has such a row and whose most recently created ones all have plan type \<open>PRO\<close>, it
  returns \<open>PRO\<close> and the feature set of the paid tier.  The store after the call is the
  store before it.
\<close>

theorem getUserPlan_resolves:
  "((\<forall>r \<in> set (subscriptions db). \<not> live_row db userId r) \<longrightarrow>
      up_planType (fst (getUserPlan env db userId)) = FREE
      \<and> up_subscription (fst (getUserPlan env db userId)) = None
      \<and> features (plan (fst (getUserPlan env db userId))) =
          \<lparr> conversionsPerMonth = 10, notesLimit = 20, aiFeatures = False,
            exportFormats = [], folders = False, tags = False \<rparr>)
   \<and> ((\<exists>r \<in> set (subscriptions db). live_row db userId r)
       \<and> (\<forall>r \<in> set (subscriptions db). most_recent_live_row db userId r \<longrightarrow> planType r = PRO)
       \<longrightarrow>
      up_planType (fst (getUserPlan env db userId)) = PRO
      \<and> features (plan (fst (getUserPlan env db userId))) =
          \<lparr> conversionsPerMonth = - 1, notesLimit = - 1, aiFeatures = True,
            exportFormats = [''pdf'', ''txt'', ''markdown''], folders = True, tags = True \<rparr>)
   \<and> snd (getUserPlan env db userId) = db"
proof (intro conjI impI)
  assume none: "\<forall>r \<in> set (subscriptions db). \<not> live_row db userId r"
  then have "active_rows db userId = []"
    by (auto simp add: active_rows_def live_row_def filter_empty_conv)
  then have n: "subscription_findFirst_newest db userId = None"
    by (simp add: subscription_findFirst_newest_def)
  show "up_planType (fst (getUserPlan env db userId)) = FREE"
    using n by (simp add: getUserPlan_def)
  show "up_subscription (fst (getUserPlan env db userId)) = None"
    using n by (simp add: getUserPlan_def)
  show "features (plan (fst (getUserPlan env db userId))) =
          \<lparr> conversionsPerMonth = 10, notesLimit = 20, aiFeatures = False,
            exportFormats = [], folders = False, tags = False \<rparr>"
    using n by (simp add: getUserPlan_def)
next
  assume h: "(\<exists>r \<in> set (subscriptions db). live_row db userId r)
       \<and> (\<forall>r \<in> set (subscriptions db). most_recent_live_row db userId r \<longrightarrow> planType r = PRO)"
  then have "active_rows db userId \<noteq> []"
    by (auto simp add: active_rows_def live_row_def filter_empty_conv)
  then obtain r where r: "newest (active_rows db userId) = Some r"
    using newest_None by (cases "newest (active_rows db userId)") auto
  have "most_recent_live_row db userId r"
    by (rule newest_active_most_recent [OF r])
  moreover from this have "r \<in> set (subscriptions db)"
    by (simp add: most_recent_live_row_def live_row_def)
  ultimately have pro: "planType r = PRO"
    using h by blast
  with r show "up_planType (fst (getUserPlan env db userId)) = PRO"
    by (simp add: getUserPlan_def subscription_findFirst_newest_def)
  from r pro
  show "features (plan (fst (getUserPlan env db userId))) =
          \<lparr> conversionsPerMonth = - 1, notesLimit = - 1, aiFeatures = True,
            exportFormats = [''pdf'', ''txt'', ''markdown''], folders = True, tags = True \<rparr>"
    by (simp add: getUserPlan_def subscription_findFirst_newest_def)
next
  show "snd (getUserPlan env db userId) = db" by (rule getUserPlan_store)
qed

lemma db_pro_u1: "fst (getUserPlan env0 db_pro ''u1'') =
   \<lparr> up_planType = PRO, up_subscription = Some pro_row, plan = PLANS env0 PRO \<rparr>"
  by (simp add: getUserPlan_def subscription_findFirst_newest_def active_rows_def db_pro_def
      free_row_def pro_row_def)

lemma db_pro_u2: "fst (getUserPlan env0 db_pro ''u2'') =
   \<lparr> up_planType = FREE, up_subscription = None, plan = PLANS env0 FREE \<rparr>"
  by (simp add: getUserPlan_def subscription_findFirst_newest_def active_rows_def db_pro_def
      free_row_def pro_row_def)

theorem getUserPlan_resolves_witness:
  "up_planType (fst (getUserPlan env0 db_pro ''u2'')) = FREE
   \<and> features (plan (fst (getUserPlan env0 db_pro ''u2''))) =
       \<lparr> conversionsPerMonth = 10, notesLimit = 20, aiFeatures = False,
         exportFormats = [], folders = False, tags = False \<rparr>
   \<and> up_planType (fst (getUserPlan env0 db_pro ''u1'')) = PRO
   \<and> features (plan (fst (getUserPlan env0 db_pro ''u1''))) =
       \<lparr> conversionsPerMonth = - 1, notesLimit = - 1, aiFeatures = True,
         exportFormats = [''pdf'', ''txt'', ''markdown''], folders = True, tags = True \<rparr>
   \<and> snd (getUserPlan env0 db_pro ''u1'') = db_pro"
proof -
  have none: "\<forall>r \<in> set (subscriptions db_pro). \<not> live_row db_pro ''u2'' r"
    by (simp add: live_row_def db_pro_def free_row_def pro_row_def)
  have some: "\<exists>r \<in> set (subscriptions db_pro). live_row db_pro ''u1'' r"
    by (simp add: live_row_def db_pro_def free_row_def pro_row_def)
  have recent: "\<forall>r \<in> set (subscriptions db_pro).
                  most_recent_live_row db_pro ''u1'' r \<longrightarrow> planType r = PRO"
    by (simp add: most_recent_live_row_def live_row_def db_pro_def free_row_def pro_row_def)
  from getUserPlan_resolves [of db_pro "''u2''" env0] none
    getUserPlan_resolves [of db_pro "''u1''" env0] some recent
  show ?thesis by blast
qed

section \<open>Quota checks\<close>










text \<open>
  C3, as amended.  When the resolved plan's \<open>notesLimit\<close> is not \<open>-1\<close>, \<open>canCreateNote\<close>
  returns \<open>allowed\<close>, \<open>used\<close> and \<open>limit\<close>, where \<open>used\<close> is the user's count of non-deleted
  notes, \<open>limit\<close> is that \<open>notesLimit\<close> and \<open>allowed\<close> holds exactly when \<open>used < limit\<close>.
  When it is \<open>-1\<close> the returned object is \<open>{ allowed: true }\<close> alone, with no \<open>used\<close> and no
  \<open>limit\<close>, whatever the note count.  The store is left as it was.
\<close>

theorem canCreateNote_quota:
  "(notesLimit (features (plan (fst (getUserPlan env db userId)))) \<noteq> - 1 \<longrightarrow>
      fst (canCreateNote env db userId) =
        \<lparr> allowed = note_count db userId
                     < notesLimit (features (plan (fst (getUserPlan env db userId)))),
          used = Some (note_count db userId),
          limit = Some (notesLimit (features (plan (fst (getUserPlan env db userId))))) \<rparr>)
   \<and> (notesLimit (features (plan (fst (getUserPlan env db userId)))) = - 1 \<longrightarrow>
      fst (canCreateNote env db userId) = \<lparr> allowed = True, used = None, limit = None \<rparr>)
   \<and> snd (canCreateNote env db userId) = db"
  by (simp add: canCreateNote_def getUserPlan_def Let_def)

lemma note_count_db_pro: "note_count db_pro ''u1'' = 1" "note_count db_pro ''u2'' = 0"
  by (simp_all add: note_count_def db_pro_def note1_def)

theorem canCreateNote_quota_witness:
  "fst (canCreateNote env0 db_pro ''u2'') = \<lparr> allowed = True, used = Some 0, limit = Some 20 \<rparr>
   \<and> fst (canCreateNote env0 db_pro ''u1'') = \<lparr> allowed = True, used = None, limit = None \<rparr>"
  using canCreateNote_quota [of env0 db_pro "''u2''"] canCreateNote_quota [of env0 db_pro "''u1''"]
    db_pro_u1 db_pro_u2 note_count_db_pro
  by simp

text \<open>
  C3 as stated fails for a user on the paid tier with one note: the returned object has
  neither \<open>used\<close> nor \<open>limit\<close>, and \<open>allowed\<close> is true although \<open>1 < -1\<close> is false.
\<close>

theorem canCreateNote_unlimited_counterexample:
  "\<not> (used (fst (canCreateNote env0 db_pro ''u1'')) = Some (note_count db_pro ''u1'')
      \<and> limit (fst (canCreateNote env0 db_pro ''u1'')) =
          Some (notesLimit (features (plan (fst (getUserPlan env0 db_pro ''u1'')))))
      \<and> (allowed (fst (canCreateNote env0 db_pro ''u1'')) \<longleftrightarrow>
           note_count db_pro ''u1''
             < notesLimit (features (plan (fst (getUserPlan env0 db_pro ''u1''))))))"
  by (simp add: canCreateNote_def db_pro_u1 Let_def split_beta)

section \<open>Usage recording\<close>

text \<open>
  C9.  \<open>trackUsage\<close> returns normally for every input.  When the insert of the usage record
  fails, for whatever reason, the store is left as it was and one line is logged; a failure
  of the storage layer is such a case.  When the insert succeeds, the store after the call
  is the store before it with exactly one usage record appended, built from the arguments.
\<close>

theorem trackUsage_swallows_failure:
  "fst (trackUsage fault rt db userId op tokens c noteId metadata) = Returned
   \<and> (\<forall>e. aIUsage_create fault rt db
              \<lparr> data_userId = userId, data_noteId = noteId, data_operation = op,
                data_tokensUsed = tokens, data_cost = c,
                data_metadata = (case metadata of None \<Rightarrow> [] | Some m \<Rightarrow> m) \<rparr> = Inl e \<longrightarrow>
          trackUsage fault rt db userId op tokens c noteId metadata =
            (Returned, db, [(''Failed to track AI usage:'', e)]))
   \<and> (\<forall>db'. aIUsage_create fault rt db
              \<lparr> data_userId = userId, data_noteId = noteId, data_operation = op,
                data_tokensUsed = tokens, data_cost = c,
                data_metadata = (case metadata of None \<Rightarrow> [] | Some m \<Rightarrow> m) \<rparr> = Inr db' \<longrightarrow>
          trackUsage fault rt db userId op tokens c noteId metadata = (Returned, db', [])
          \<and> db' = db\<lparr> aiUsage := aiUsage db @
                 [\<lparr> usage_id = db_newId rt, usage_userId = userId, usage_noteId = noteId,
                    operation = op, tokensUsed = tokens, cost = c,
                    usage_metadata = (case metadata of None \<Rightarrow> [] | Some m \<Rightarrow> m),
                    usage_createdAt = db_now rt \<rparr>] \<rparr>)
   \<and> (\<forall>e. trackUsage (Some e) rt db userId op tokens c noteId metadata =
            (Returned, db, [(''Failed to track AI usage:'', e)]))"
  by (auto simp add: trackUsage_def aIUsage_create_def Let_def split: option.splits if_splits)

theorem trackUsage_swallows_failure_witness:
  "trackUsage (Some StorageFailure) rt0 db_nine ''u2'' ''ocr'' 1000 (Fin 0) None None =
     (Returned, db_nine, [(''Failed to track AI usage:'', StorageFailure)])
   \<and> trackUsage None rt0 db_nine ''u2'' ''ocr'' 1000 (Fin 0) None None =
     (Returned, db_nine\<lparr> aiUsage := aiUsage db_nine @
         [\<lparr> usage_id = ''new1'', usage_userId = ''u2'', usage_noteId = None,
            operation = ''ocr'', tokensUsed = 1000, cost = Fin 0,
            usage_metadata = [], usage_createdAt = date2 \<rparr>] \<rparr>, [])"
proof -
  have ok: "aIUsage_create None rt0 db_nine
              \<lparr> data_userId = ''u2'', data_noteId = None, data_operation = ''ocr'',
                data_tokensUsed = 1000, data_cost = Fin 0,
                data_metadata = (case None of None \<Rightarrow> [] | Some m \<Rightarrow> m) \<rparr> =
            Inr (db_nine\<lparr> aiUsage := aiUsage db_nine @
              [\<lparr> usage_id = ''new1'', usage_userId = ''u2'', usage_noteId = None,
                 operation = ''ocr'', tokensUsed = 1000, cost = Fin 0,
                 usage_metadata = [], usage_createdAt = date2 \<rparr>] \<rparr>)"
    by (simp add: aIUsage_create_def rt0_def db_nine_def user2_def ocr_usage_def)
  from trackUsage_swallows_failure
         [of None rt0 db_nine "''u2''" "''ocr''" 1000 "Fin 0" None None] ok
  have "trackUsage None rt0 db_nine ''u2'' ''ocr'' 1000 (Fin 0) None None =
     (Returned, db_nine\<lparr> aiUsage := aiUsage db_nine @
         [\<lparr> usage_id = ''new1'', usage_userId = ''u2'', usage_noteId = None,
            operation = ''ocr'', tokensUsed = 1000, cost = Fin 0,
            usage_metadata = [], usage_createdAt = date2 \<rparr>] \<rparr>, [])"
    by blast
  moreover from trackUsage_swallows_failure
         [of "Some StorageFailure" rt0 db_nine "''u2''" "''ocr''" 1000 "Fin 0" None None]
  have "trackUsage (Some StorageFailure) rt0 db_nine ''u2'' ''ocr'' 1000 (Fin 0) None None =
     (Returned, db_nine, [(''Failed to track AI usage:'', StorageFailure)])"
    by blast
  ultimately show ?thesis by simp
qed

section \<open>Subscription events\<close>



















section \<open>Checkout completion\<close>

lemma handleCheckoutCompleted_ignores_payment_status:
  "handleCheckoutCompleted stripe rt db (session\<lparr> payment_status := p \<rparr>) =
   handleCheckoutCompleted stripe rt db session"
  by (simp add: handleCheckoutCompleted_def metadata_get_def Let_def
      cong: sum.case_cong option.case_cong if_cong)

lemma image_map_preserved: "(\<And>x. g (f x) = g x) \<Longrightarrow> g ` set (map f xs) = g ` set xs"
  by (simp add: image_image)

lemma handleCheckoutCompleted_resolved_user:
  assumes "metadata_get session ''userId'' = Some uid" and "uid \<noteq> []" and "uid \<noteq> ''pending''"
    and "subscriptions_retrieve stripe (cs_subscription session) = Inr sub"
    and "uid \<in> user_id ` set (users db)"
    and "db_newId rt \<notin> sub_id ` set (subscriptions db)"
    and "Some (ss_id sub) \<notin> stripeSubscriptionId ` set (subscriptions db)"
  shows "handleCheckoutCompleted stripe rt db session =
     (Returned,
      db\<lparr> subscriptions :=
            map (\<lambda>r. if sub_userId r = uid then r\<lparr> sub_deletedAt := Some (js_now rt) \<rparr> else r)
                (subscriptions db) @
            [\<lparr> sub_id = db_newId rt, sub_userId = uid, planType = PRO,
               status = (if ss_status sub = ''active'' then ACTIVE else INCOMPLETE),
               stripeCustomerId = customer session,
               stripeSubscriptionId = Some (ss_id sub),
               currentPeriodStart = Some (current_period_start sub * 1000),
               currentPeriodEnd = Some (current_period_end sub * 1000),
               cancelAtPeriodEnd = False,
               sub_createdAt = db_now rt, sub_deletedAt = None \<rparr>],
          users := map (\<lambda>u. if user_id u = uid then u\<lparr> role := Role_PRO \<rparr> else u) (users db) \<rparr>)"
proof -
  let ?db1 = "subscription_updateMany_deletedAt db uid (js_now rt)"
  have ids: "sub_id ` set (subscriptions ?db1) = sub_id ` set (subscriptions db)"
    unfolding subscription_updateMany_deletedAt_def
    by (simp del: set_map, rule image_map_preserved) simp
  have sids: "stripeSubscriptionId ` set (subscriptions ?db1) =
              stripeSubscriptionId ` set (subscriptions db)"
    unfolding subscription_updateMany_deletedAt_def
    by (simp del: set_map, rule image_map_preserved) simp
  have us: "users ?db1 = users db"
    by (simp add: subscription_updateMany_deletedAt_def)
  have t: "truthy (Some uid)"
    using assms(2) by (simp add: truthy_def)
  show ?thesis
    using assms t ids sids us
    by (simp add: handleCheckoutCompleted_def Let_def subscription_create_def
        user_update_role_def subscription_updateMany_deletedAt_def)
qed

text \<open>
  C7.  The handler is meant to act only when the session's payment status is \<open>paid\<close>; the
  code does not check it.  On a completed session of user \<open>u2\<close> whose payment status is
  \<open>unpaid\<close> it tombstones the user's row, inserts a \<open>PRO\<close> row with status \<open>INCOMPLETE\<close>
  and sets the user's role to \<open>PRO\<close>.  The handler never reads the payment status
  (\<open>handleCheckoutCompleted_ignores_payment_status\<close>), while the registration path of the
  same repository links a session only when it is paid.  What the handler does for a
  resolved user is otherwise as described (\<open>handleCheckoutCompleted_resolved_user\<close>).
\<close>

theorem handleCheckoutCompleted_unpaid_upgrades:
  "payment_status unpaid_session = ''unpaid''
   \<and> handleCheckoutCompleted stripe0 rt0 db_free2 unpaid_session =
       (Returned,
        \<lparr> subscriptions =
            [free_row2\<lparr> sub_deletedAt := Some date2 \<rparr>,
             \<lparr> sub_id = ''new1'', sub_userId = ''u2'', planType = PRO, status = INCOMPLETE,
               stripeCustomerId = Some ''cus_2'', stripeSubscriptionId = Some ''sub_2'',
               currentPeriodStart = Some 1718841600000,
               currentPeriodEnd = Some 1721433600000, cancelAtPeriodEnd = False,
               sub_createdAt = date2, sub_deletedAt = None \<rparr>],
          users = [user2\<lparr> role := Role_PRO \<rparr>], note_table = [], aiUsage = [],
          paymentHistory = [] \<rparr>)"
  by (simp add: handleCheckoutCompleted_def metadata_get_def unpaid_session_def js_or_def
      truthy_def subscriptions_retrieve_def stripe0_def rt0_def db_free2_def free_row2_def
      user2_def subscription_updateMany_deletedAt_def subscription_create_def
      user_update_role_def)

section \<open>Guest checkout\<close>

lemma handleCheckoutCompleted_guest_store:
  "\<not> truthy (metadata_get session ''userId'') \<or> metadata_get session ''userId'' = Some ''pending''
   \<longrightarrow> snd (handleCheckoutCompleted stripe rt db session) = db"
  by (auto simp add: handleCheckoutCompleted_def Let_def split: sum.splits option.splits)

lemma issue_guest_session_store:
  "snd (snd (issue_guest_session pc stripe db e p b c)) = db"
  by (simp add: issue_guest_session_def Let_def split: sum.splits prod.splits)

lemma createGuestCheckoutSession_store:
  "snd (snd (createGuestCheckoutSession env pc stripe_opt db body)) = db"
  by (simp add: createGuestCheckoutSession_def Let_def issue_guest_session_store
      split: option.splits)

lemma issue_guest_session_metadata:
  assumes "issue_guest_session pc stripe db e p b c = (Session_created sid url, Some stripe', db')"
  shows "\<exists>s \<in> set (provider_sessions stripe').
           cs_id s = sid
           \<and> metadata_get s ''email'' = Some e
           \<and> metadata_get s ''planType'' = Some b
           \<and> metadata_get s ''billingCycle'' = Some c
           \<and> metadata_get s ''userId'' = Some (or_pending (map_option user_id (user_findUnique_email db e)))"
proof -
  from assms obtain customerId stripe1 session where
    s: "sessions_create pc stripe1 customerId
          (case user_findUnique_email db e of None \<Rightarrow> Some e | Some u \<Rightarrow> None)
          [(''userId'', or_pending (map_option user_id (user_findUnique_email db e))),
           (''email'', e), (''planType'', b), (''originalPlanType'', p),
           (''billingCycle'', c)] = Inr (session, stripe')"
    and sid: "cs_id session = sid"
    by (auto simp add: issue_guest_session_def Let_def split: sum.splits prod.splits)
  from s have "session \<in> set (provider_sessions stripe')"
    and "cs_metadata session =
          Some [(''userId'', or_pending (map_option user_id (user_findUnique_email db e))),
           (''email'', e), (''planType'', b), (''originalPlanType'', p),
           (''billingCycle'', c)]"
    by (auto simp add: sessions_create_def Let_def split: option.splits)
  with sid show ?thesis
    by (intro bexI [of _ session]) (simp_all add: metadata_get_def)
qed

lemma createGuestCheckoutSession_issues:
  assumes "createGuestCheckoutSession env pc stripe_opt db body =
             (Session_created sid url, Some stripe', db')"
  shows "\<exists>stripe e. stripe_opt = Some stripe \<and> body_email body = Some e \<and>
           issue_guest_session pc stripe db e
             (case body_planType body of None \<Rightarrow> ''PRO'' | Some s \<Rightarrow> s) ''PRO''
             (case body_billingCycle body of None \<Rightarrow> ''monthly'' | Some s \<Rightarrow> s)
           = (Session_created sid url, Some stripe', db')"
proof (cases stripe_opt)
  case None
  with assms show ?thesis by (simp add: createGuestCheckoutSession_def)
next
  case (Some stripe)
  show ?thesis
  proof (cases "body_email body")
    case None
    with assms Some show ?thesis
      by (simp add: createGuestCheckoutSession_def truthy_def Let_def)
  next
    case e: (Some e)
    let ?p = "case body_planType body of None \<Rightarrow> ''PRO'' | Some s \<Rightarrow> s"
    from assms Some e have valid: "?p = ''BASIC'' \<or> ?p = ''PRO'' \<or> ?p = ''PREMIUM''"
      by (auto simp add: createGuestCheckoutSession_def Let_def split: if_splits)
    then have b: "(if ?p = ''BASIC'' \<or> ?p = ''PREMIUM'' then ''PRO'' else ?p) = ''PRO''"
      by auto
    from assms Some e valid show ?thesis
      unfolding createGuestCheckoutSession_def Let_def b
      by (simp add: PLANS_by_name_def split: if_splits)
  qed
qed

text \<open>
  C8, as amended.  For a guest checkout (the session's \<open>metadata.userId\<close> is absent, empty
  or \<open>pending\<close>) \<open>handleCheckoutCompleted\<close> changes no subscription row and writes nothing
  else: the store after the call is the store before it.  The association of the checkout
  session id with the email, plan type and billing cycle is the metadata that
  \<open>createGuestCheckoutSession\<close> put on the provider's session when it issued it (with
  \<open>userId\<close> \<open>pending\<close> when no user has that email), and that function does not write the
  store either.
\<close>

theorem guest_checkout_keeps_mapping_at_provider:
  "(\<not> truthy (metadata_get session ''userId'') \<or> metadata_get session ''userId'' = Some ''pending''
      \<longrightarrow> snd (handleCheckoutCompleted stripe rt db session) = db)
   \<and> (\<forall>sid url stripe' db'.
         createGuestCheckoutSession env pc stripe_opt db body =
           (Session_created sid url, Some stripe', db') \<longrightarrow>
         db' = db
         \<and> (\<exists>s \<in> set (provider_sessions stripe').
               cs_id s = sid
               \<and> metadata_get s ''email'' = body_email body
               \<and> metadata_get s ''planType'' = Some ''PRO''
               \<and> metadata_get s ''billingCycle'' =
                   Some (case body_billingCycle body of None \<Rightarrow> ''monthly'' | Some c \<Rightarrow> c)
               \<and> (user_findUnique_email db
                     (case body_email body of None \<Rightarrow> [] | Some e \<Rightarrow> e) = None
                    \<longrightarrow> metadata_get s ''userId'' = Some ''pending'')))"
proof (intro conjI allI impI)
  assume "\<not> truthy (metadata_get session ''userId'')
          \<or> metadata_get session ''userId'' = Some ''pending''"
  then show "snd (handleCheckoutCompleted stripe rt db session) = db"
    using handleCheckoutCompleted_guest_store by blast
next
  fix sid url stripe' db'
  assume run: "createGuestCheckoutSession env pc stripe_opt db body =
                 (Session_created sid url, Some stripe', db')"
  from createGuestCheckoutSession_store [of env pc stripe_opt db body] run
  show "db' = db" by simp
  from createGuestCheckoutSession_issues [OF run] obtain stripe0' e where
    e: "body_email body = Some e"
    and issue: "issue_guest_session pc stripe0' db e
             (case body_planType body of None \<Rightarrow> ''PRO'' | Some s \<Rightarrow> s) ''PRO''
             (case body_billingCycle body of None \<Rightarrow> ''monthly'' | Some s \<Rightarrow> s)
           = (Session_created sid url, Some stripe', db')"
    by blast
  from issue_guest_session_metadata [OF issue] obtain s where
    s: "s \<in> set (provider_sessions stripe')" "cs_id s = sid"
       "metadata_get s ''email'' = Some e" "metadata_get s ''planType'' = Some ''PRO''"
       "metadata_get s ''billingCycle'' =
          Some (case body_billingCycle body of None \<Rightarrow> ''monthly'' | Some c \<Rightarrow> c)"
       "metadata_get s ''userId'' =
          Some (or_pending (map_option user_id (user_findUnique_email db e)))"
    by blast
  show "\<exists>s \<in> set (provider_sessions stripe').
               cs_id s = sid
               \<and> metadata_get s ''email'' = body_email body
               \<and> metadata_get s ''planType'' = Some ''PRO''
               \<and> metadata_get s ''billingCycle'' =
                   Some (case body_billingCycle body of None \<Rightarrow> ''monthly'' | Some c \<Rightarrow> c)
               \<and> (user_findUnique_email db
                     (case body_email body of None \<Rightarrow> [] | Some e \<Rightarrow> e) = None
                    \<longrightarrow> metadata_get s ''userId'' = Some ''pending'')"
    using s e by (intro bexI [of _ s]) (simp_all add: or_pending_def js_or_def truthy_def)
qed

lemma guest_body_run:
  "createGuestCheckoutSession env0 pc0 (Some stripe0) db_pro guest_body =
     (Session_created ''cs_2'' ''https://checkout.example/cs_2'', Some stripe_after_guest,
      db_pro)"
  by (simp add: createGuestCheckoutSession_def issue_guest_session_def guest_body_def
      truthy_def js_or_def or_pending_def PLANS_by_name_def env0_def
      user_findUnique_email_def existing_customerId_def get_or_create_customer_def
      customers_create_def sessions_create_def pc0_def stripe0_def db_pro_def user1_def
      user2_def stripe_after_guest_def Let_def)

theorem guest_checkout_keeps_mapping_at_provider_witness:
  "snd (handleCheckoutCompleted stripe0 rt0 db_pro guest_session) = db_pro
   \<and> (\<exists>s \<in> set (provider_sessions stripe_after_guest).
         cs_id s = ''cs_2''
         \<and> metadata_get s ''email'' = Some ''new@b.com''
         \<and> metadata_get s ''planType'' = Some ''PRO''
         \<and> metadata_get s ''billingCycle'' = Some ''monthly''
         \<and> metadata_get s ''userId'' = Some ''pending'')"
proof -
  note inst = guest_checkout_keeps_mapping_at_provider
                [of guest_session stripe0 rt0 db_pro env0 pc0 "Some stripe0" guest_body]
  have g: "metadata_get guest_session ''userId'' = Some ''pending''"
    by (simp add: metadata_get_def guest_session_def)
  from inst g have handler: "snd (handleCheckoutCompleted stripe0 rt0 db_pro guest_session) = db_pro"
    by blast
  have new_email: "user_findUnique_email db_pro
                     (case body_email guest_body of None \<Rightarrow> [] | Some e \<Rightarrow> e) = None"
    by (simp add: user_findUnique_email_def db_pro_def user1_def user2_def guest_body_def)
  from inst guest_body_run obtain s where
    "s \<in> set (provider_sessions stripe_after_guest)" and "cs_id s = ''cs_2''"
    and "metadata_get s ''email'' = body_email guest_body"
    and "metadata_get s ''planType'' = Some ''PRO''"
    and "metadata_get s ''billingCycle'' =
           Some (case body_billingCycle guest_body of None \<Rightarrow> ''monthly'' | Some c \<Rightarrow> c)"
    and "user_findUnique_email db_pro
           (case body_email guest_body of None \<Rightarrow> [] | Some e \<Rightarrow> e) = None
         \<longrightarrow> metadata_get s ''userId'' = Some ''pending''"
    by blast
  with new_email have "\<exists>s \<in> set (provider_sessions stripe_after_guest).
         cs_id s = ''cs_2''
         \<and> metadata_get s ''email'' = Some ''new@b.com''
         \<and> metadata_get s ''planType'' = Some ''PRO''
         \<and> metadata_get s ''billingCycle'' = Some ''monthly''
         \<and> metadata_get s ''userId'' = Some ''pending''"
    by (intro bexI [of _ s]) (simp_all add: guest_body_def)
  with handler show ?thesis by simp
qed

text \<open>
  C8 as stated fails on the guest session \<open>cs_2\<close> arriving at an empty store: the handler
  returns and the store is still empty, so no mapping for the session has been persisted.
\<close>

theorem handleCheckoutCompleted_guest_counterexample:
  "metadata_get guest_session ''userId'' = Some ''pending''
   \<and> handleCheckoutCompleted stripe0 rt0 empty_store guest_session =
       (Returned,
        \<lparr> subscriptions = [], users = [], note_table = [], aiUsage = [],
          paymentHistory = [] \<rparr>)"
  by (simp add: handleCheckoutCompleted_def metadata_get_def guest_session_def js_or_def
      truthy_def subscriptions_retrieve_def stripe0_def empty_store_def)

end
